theory Spec2Isabelle
  imports Main "HOL-Library.Word"
begin

unbundle bit_operations_syntax

section \<open>Python values shared by both modules\<close>

text \<open>
  A byte is an 8-bit word. The exceptions the two modules can raise are values; the
  \<open>TypeError\<close>s are told apart by what raised them.
\<close>

type_synonym byte = "8 word"

datatype type_error =
    LengthChange    \<comment> \<open>"length of 'bytearray_ptr' object cannot be changed"\<close>
  | ItemDeletion    \<comment> \<open>"'bytearray_ptr' object doesn't support item deletion"\<close>
  | Unhashable      \<comment> \<open>"unhashable type: 'bytearray'", raised by \<open>hash\<close>\<close>
  | NoLen           \<comment> \<open>"object of type 'int' has no len()"\<close>
  | NotAnInteger    \<comment> \<open>a bytes object stored where an integer byte is expected\<close>

datatype py_error =
    IndexError
  | TypeError type_error
  | KeyError
  | ValueError
  | RuntimeError
  | NotImplementedError

section \<open>libnl/genl/family.py\<close>

subsection \<open>Presence bits\<close>

definition FAMILY_ATTR_ID :: int where "FAMILY_ATTR_ID = 0x01"
definition FAMILY_ATTR_NAME :: int where "FAMILY_ATTR_NAME = 0x02"
definition FAMILY_ATTR_VERSION :: int where "FAMILY_ATTR_VERSION = 0x04"
definition FAMILY_ATTR_HDRSIZE :: int where "FAMILY_ATTR_HDRSIZE = 0x08"
definition FAMILY_ATTR_MAXATTR :: int where "FAMILY_ATTR_MAXATTR = 0x10"
definition FAMILY_ATTR_OPS :: int where "FAMILY_ATTR_OPS = 0x20"

subsection \<open>The family object\<close>

text \<open>
  Modelled from the spec: the class \<open>genl_family\<close> is imported from
  \<open>libnl.netlink_private.types\<close>, outside the given sources. The spec gives the object a
  presence mask, a numeric id and a name; the functions of \<open>family.py\<close> reach them as the
  attributes \<open>ce_mask\<close>, \<open>gf_id\<close> and \<open>gf_name\<close>. They are plain Python attributes here
  (unbounded integers, a string); every other attribute of the object lives in the
  extension slot \<open>more\<close> of the record, so that the functions below are defined for a
  family object with any further fields.
\<close>

record genl_family =
  ce_mask :: int
  gf_id :: int
  gf_name :: string

text \<open>
  Modelled from the spec: the class \<open>genl_family_grp\<close> comes from the same module; the spec
  makes a group a pair of an id and a name. The keyword \<open>id_\<close> of its constructor receives
  an integer, or the builtin function \<open>id\<close>.
\<close>

datatype grp_id = IntId int | BuiltinFunction_id

record genl_family_grp =
  grp_id :: grp_id
  grp_name :: string

text \<open>
  Modelled from the spec: the allocation \<open>genl_family(nl_object_alloc(genl_family_ops))\<close>
  goes through the class \<open>genl_family\<close> and the function \<open>nl_object_alloc\<close>, both outside the
  given sources. The spec has the allocator zero-initialise the presence mask; what the
  fields hold before any setter runs is left open, and is an argument here.
\<close>

definition genl_family_alloc :: "int \<Rightarrow> string \<Rightarrow> genl_family" where
  "genl_family_alloc stored_id stored_name =
     \<lparr>ce_mask = 0, gf_id = stored_id, gf_name = stored_name\<rparr>"

text \<open>
  \<open>return int(family.gf_id if family.ce_mask & FAMILY_ATTR_ID else GENL_ID_GENERATE)\<close>.
  The constant \<open>GENL_ID_GENERATE\<close> is imported from \<open>libnl.linux_private.genetlink\<close>; it is
  the first argument. A Python integer is true when it is not zero.
\<close>

definition genl_family_get_id :: "int \<Rightarrow> 'a genl_family_scheme \<Rightarrow> int" where
  "genl_family_get_id GENL_ID_GENERATE family =
     (if ce_mask family AND FAMILY_ATTR_ID \<noteq> 0 then gf_id family else GENL_ID_GENERATE)"

definition genl_family_set_id :: "'a genl_family_scheme \<Rightarrow> int \<Rightarrow> 'a genl_family_scheme" where
  "genl_family_set_id family id' =
     (let family = family\<lparr>gf_id := id'\<rparr>;
          family = family\<lparr>ce_mask := ce_mask family OR FAMILY_ATTR_ID\<rparr>
      in family)"

definition genl_family_set_name :: "'a genl_family_scheme \<Rightarrow> string \<Rightarrow> 'a genl_family_scheme" where
  "genl_family_set_name family name =
     (let family = family\<lparr>gf_name := name\<rparr>;
          family = family\<lparr>ce_mask := ce_mask family OR FAMILY_ATTR_NAME\<rparr>
      in family)"

text \<open>
  \<open>grp = genl_family_grp(id_=id, name=name)\<close> followed by \<open>raise NotImplementedError\<close>: the
  group is built from the builtin \<open>id\<close> (the parameter is \<open>id_\<close>) and dropped, and the
  function leaves by the exception. The result pairs the outcome (the exception, or the
  returned integer) with the family object as the call leaves it.
\<close>

definition genl_family_add_grp ::
  "'a genl_family_scheme \<Rightarrow> int \<Rightarrow> string \<Rightarrow> (py_error + int) \<times> 'a genl_family_scheme" where
  "genl_family_add_grp family id' name =
     (let grp = \<lparr>grp_id = BuiltinFunction_id, grp_name = name\<rparr>
      in (Inl NotImplementedError, family))"

section \<open>libnl/misc.py\<close>

subsection \<open>Python sequences and the builtin bytearray\<close>

text \<open>
  \<open>x or d\<close> for an \<open>x\<close> that is \<open>None\<close> or an integer: \<open>None\<close> and \<open>0\<close> are false, so both give
  \<open>d\<close>.
\<close>

definition py_or :: "int option \<Rightarrow> int \<Rightarrow> int" where
  "py_or x d = (case x of None \<Rightarrow> d | Some v \<Rightarrow> if v = 0 then d else v)"

definition py_len :: "'a list \<Rightarrow> int" where
  "py_len xs = int (length xs)"

text \<open>
  A slice bound of a sequence of length \<open>n\<close>, step 1: a bound below zero counts from the
  end, and the result is clipped to \<open>0 .. n\<close>.
\<close>

definition adjust_index :: "int \<Rightarrow> int \<Rightarrow> int" where
  "adjust_index n i = (if i < 0 then max 0 (i + n) else min i n)"

text \<open>\<open>xs[start:stop]\<close> with integer bounds.\<close>

definition getslice :: "'a list \<Rightarrow> int \<Rightarrow> int \<Rightarrow> 'a list" where
  "getslice xs start stop =
     (let n = py_len xs; lo = adjust_index n start; hi = adjust_index n stop
      in take (nat (hi - lo)) (drop (nat lo) xs))"

text \<open>
  \<open>xs[start:stop] = v\<close> on a list or a bytearray: the range is replaced by \<open>v\<close>, whatever the
  length of \<open>v\<close>; a range that ends before it starts is the empty range at its start.
\<close>

definition setslice :: "'a list \<Rightarrow> int \<Rightarrow> int \<Rightarrow> 'a list \<Rightarrow> 'a list" where
  "setslice xs start stop v =
     (let n = py_len xs; lo = adjust_index n start; hi = max lo (adjust_index n stop)
      in take (nat lo) xs @ v @ drop (nat hi) xs)"

text \<open>\<open>xs[i]\<close>: an index below zero counts from the end; out of range raises.\<close>

definition getindex :: "'a list \<Rightarrow> int \<Rightarrow> py_error + 'a" where
  "getindex xs i =
     (let n = py_len xs; j = (if i < 0 then i + n else i)
      in if 0 \<le> j \<and> j < n then Inr (xs ! nat j) else Inl IndexError)"

text \<open>The right-hand side of an item assignment: an integer, or a bytes-like object.\<close>

datatype py_value = IntValue int | BytesValue "byte list"

text \<open>
  \<open>ba[i] = value\<close> on a bytearray: the value must be an integer in \<open>range(256)\<close>, and the
  index in range. The value is tested first, as CPython 3.11 does (older interpreters
  test the index first; the two orders differ only when both tests fail).
\<close>

definition bytearray_setindex :: "byte list \<Rightarrow> int \<Rightarrow> py_value \<Rightarrow> py_error + byte list" where
  "bytearray_setindex ba i val =
     (let n = py_len ba; j = (if i < 0 then i + n else i)
      in case val of
           BytesValue _ \<Rightarrow> Inl (TypeError NotAnInteger)
         | IntValue b \<Rightarrow>
             if \<not> (0 \<le> b \<and> b < 256) then Inl ValueError
             else if \<not> (0 \<le> j \<and> j < n) then Inl IndexError
             else Inr (ba[nat j := word_of_int b]))"

subsection \<open>ctypes integers\<close>

text \<open>
  The byte order of the platform is an argument. A ctypes integer does no overflow check:
  it keeps its argument modulo two to its width, so the bytes of \<open>c_int32(v)\<close> and of
  \<open>c_uint32(v)\<close> are the same four bytes.
\<close>

datatype byteorder = LittleEndian | BigEndian

fun le_bytes :: "nat \<Rightarrow> int \<Rightarrow> byte list" where
  "le_bytes 0 v = []"
| "le_bytes (Suc n) v = word_of_int v # le_bytes n (v div 256)"

fun le_value :: "byte list \<Rightarrow> int" where
  "le_value [] = 0"
| "le_value (b # bs) = uint b + 256 * le_value bs"

definition native_bytes :: "byteorder \<Rightarrow> nat \<Rightarrow> int \<Rightarrow> byte list" where
  "native_bytes bo n v = (case bo of LittleEndian \<Rightarrow> le_bytes n v | BigEndian \<Rightarrow> rev (le_bytes n v))"

definition native_value :: "byteorder \<Rightarrow> byte list \<Rightarrow> int" where
  "native_value bo bs = le_value (case bo of LittleEndian \<Rightarrow> bs | BigEndian \<Rightarrow> rev bs)"

definition SIZEOF_U32 :: int where "SIZEOF_U32 = 4"

text \<open>\<open>bytearray(ctypes.c_int32(v))\<close>.\<close>

definition c_int32_bytes :: "byteorder \<Rightarrow> int \<Rightarrow> byte list" where
  "c_int32_bytes bo v = native_bytes bo 4 v"

text \<open>\<open>bytes(ctypes.c_uint64(v))\<close>.\<close>

definition c_uint64_bytes :: "byteorder \<Rightarrow> int \<Rightarrow> byte list" where
  "c_uint64_bytes bo v = native_bytes bo 8 v"

text \<open>
  \<open>ctypes.c_uint32.from_buffer(buf).value\<close>: the first four bytes of the buffer, read as an
  unsigned integer; a shorter buffer raises \<open>ValueError\<close>.
\<close>

definition c_uint32_from_buffer :: "byteorder \<Rightarrow> byte list \<Rightarrow> py_error + int" where
  "c_uint32_from_buffer bo buf =
     (if length buf < 4 then Inl ValueError else Inr (native_value bo (take 4 buf)))"

subsection \<open>bytearray_ptr\<close>

text \<open>
  The instance holds the pointee and \<open>slice(start, stop)\<close>. The pointee is shared with
  whoever passed it in; the functions below return the instance with the pointee as the
  call leaves it.
\<close>

record bytearray_ptr =
  pointee :: "byte list"
  slice_start :: int
  slice_stop :: int

definition bytearray_ptr_init :: "byte list \<Rightarrow> int option \<Rightarrow> int option \<Rightarrow> bytearray_ptr" where
  "bytearray_ptr_init pointee' start stop =
     (let start1 = py_or start 0;
          stop1 = py_or stop (if stop = Some 0 then start1 else py_len pointee');
          start2 = (if start1 < 0 then start1 + py_len pointee' else start1);
          stop2 = (if stop1 < 0 then stop1 + py_len pointee' else stop1)
      in \<lparr>pointee = pointee', slice_start = start2, slice_stop = stop2\<rparr>)"

text \<open>\<open>copy\<close>: \<open>bytearray(self.pointee[self.slice])\<close>, the bytes the view shows.\<close>

definition copy :: "bytearray_ptr \<Rightarrow> byte list" where
  "copy self = getslice (pointee self) (slice_start self) (slice_stop self)"

text \<open>\<open>__len__\<close>: \<open>len(self.pointee[self.slice])\<close>.\<close>

definition len_ptr :: "bytearray_ptr \<Rightarrow> int" where
  "len_ptr self = py_len (getslice (pointee self) (slice_start self) (slice_stop self))"

text \<open>
  A key is an integer or a \<open>slice(start, stop, step)\<close> whose parts are \<open>None\<close> or integers.
\<close>

datatype py_key = Index int | Slice "int option" "int option" "int option"


text \<open>
  \<open>__setitem__\<close>, first part: \<open>int(key)\<close> raises \<open>TypeError\<close> on a slice and succeeds on an
  integer, which becomes \<open>slice(key, key + 1)\<close> after one shift of a negative key. The step
  of a slice is never read.
\<close>

definition key_is_int :: "py_key \<Rightarrow> bool" where
  "key_is_int key = (case key of Index _ \<Rightarrow> True | Slice _ _ _ \<Rightarrow> False)"

definition key_bounds :: "bytearray_ptr \<Rightarrow> py_key \<Rightarrow> int option \<times> int option" where
  "key_bounds self key =
     (case key of
        Index k \<Rightarrow> (let k1 = (if k < 0 then k + len_ptr self else k) in (Some k1, Some (k1 + 1)))
      | Slice start stop step \<Rightarrow> (start, stop))"

text \<open>
  "Calculate slices": \<open>start\<close> as the \<open>IndexError\<close> test sees it, then the two offsets into the
  pointee.
\<close>

definition view_start :: "bytearray_ptr \<Rightarrow> int option \<Rightarrow> int" where
  "view_start self key_start =
     (let start = py_or key_start 0
      in if start < 0 then start + len_ptr self else start)"

definition target_range :: "bytearray_ptr \<Rightarrow> int option \<Rightarrow> int option \<Rightarrow> int \<times> int" where
  "target_range self key_start key_stop =
     (let start = view_start self key_start;
          stop = py_or key_stop (if key_stop = Some 0 then start else len_ptr self);
          stop1 = (if stop < 0 then stop + len_ptr self else stop);
          start2 = start + slice_start self;
          stop2 = stop1 + slice_start self;
          stop3 = min stop2 (slice_stop self)
      in (start2, stop3))"

text \<open>"Catch bugs": the test of the pointee's length after the write.\<close>

definition catch_bugs :: "bytearray_ptr \<Rightarrow> byte list \<Rightarrow> py_error option \<times> bytearray_ptr" where
  "catch_bugs self pointee' =
     (if length pointee' \<noteq> length (pointee self)
      then (Some RuntimeError, self\<lparr>pointee := pointee'\<rparr>)
      else (None, self\<lparr>pointee := pointee'\<rparr>))"

definition setitem :: "bytearray_ptr \<Rightarrow> py_key \<Rightarrow> py_value \<Rightarrow> py_error option \<times> bytearray_ptr" where
  "setitem self key val =
     (case key_bounds self key of (key_start, key_stop) \<Rightarrow>
        if view_start self key_start \<ge> len_ptr self then (Some IndexError, self)
        else (case target_range self key_start key_stop of (start, stop) \<Rightarrow>
          if key_is_int key then
            (case bytearray_setindex (pointee self) start val of
               Inl e \<Rightarrow> (Some e, self)
             | Inr pointee' \<Rightarrow> catch_bugs self pointee')
          else
            (case val of
               IntValue _ \<Rightarrow> (Some (TypeError NoLen), self)
             | BytesValue v \<Rightarrow>
                 if length (getslice (pointee self) start stop) \<noteq> length v
                 then (Some (TypeError LengthChange), self)
                 else catch_bugs self (setslice (pointee self) start stop v))))"

subsection \<open>StructNoPointers\<close>

text \<open>
  \<open>__init__(self, ba)\<close> stores the buffer it is given: a bytearray (as \<open>ucred\<close> passes), or
  the other buffer class of the module, a \<open>bytearray_ptr\<close>.
\<close>

datatype buffer = PlainBytearray "byte list" | BytearrayPtr bytearray_ptr

record StructNoPointers =
  bytearray :: buffer

text \<open>
  \<open>_get_slicers\<close>, with the class attribute \<open>SIGNATURE\<close> as an argument. The result is the
  pair of bounds of the slice.
\<close>

definition get_slicers :: "int list \<Rightarrow> int \<Rightarrow> py_error + (int \<times> int)" where
  "get_slicers SIGNATURE index =
     (if index = 0 then
        (case getindex SIGNATURE 0 of Inl e \<Rightarrow> Inl e | Inr w \<Rightarrow> Inr (0, w))
      else if index \<ge> py_len SIGNATURE then Inl IndexError
      else
        (let pad_start = sum_list (getslice SIGNATURE 0 index)
         in case getindex SIGNATURE index of
              Inl e \<Rightarrow> Inl e
            | Inr w \<Rightarrow> Inr (pad_start, pad_start + w)))"

text \<open>
  \<open>buf[slice(start, stop)] = value\<close> and \<open>buf[slice(start, stop)]\<close> on the buffer of a struct:
  the builtin on a bytearray, \<open>__setitem__\<close> and \<open>__getitem__\<close>
  (\<open>self.pointee[self.slice][item]\<close>) on a \<open>bytearray_ptr\<close>.
\<close>

definition buffer_setslice :: "buffer \<Rightarrow> int \<times> int \<Rightarrow> byte list \<Rightarrow> py_error option \<times> buffer" where
  "buffer_setslice buf slc v =
     (case buf of
        PlainBytearray ba \<Rightarrow> (None, PlainBytearray (setslice ba (fst slc) (snd slc) v))
      | BytearrayPtr p \<Rightarrow>
          (case setitem p (Slice (Some (fst slc)) (Some (snd slc)) None) (BytesValue v) of
             (e, p') \<Rightarrow> (e, BytearrayPtr p')))"

definition buffer_getslice :: "buffer \<Rightarrow> int \<times> int \<Rightarrow> byte list" where
  "buffer_getslice buf slc =
     (case buf of
        PlainBytearray ba \<Rightarrow> getslice ba (fst slc) (snd slc)
      | BytearrayPtr p \<Rightarrow> getslice (copy p) (fst slc) (snd slc))"

text \<open>
  The statement every field setter is made of,
  \<open>self.bytearray[self._get_slicers(index)] = value\<close>, and the expression every field getter
  starts from, \<open>self.bytearray[self._get_slicers(index)]\<close>.
\<close>

definition field_write ::
  "int list \<Rightarrow> StructNoPointers \<Rightarrow> int \<Rightarrow> byte list \<Rightarrow> py_error option \<times> StructNoPointers" where
  "field_write SIGNATURE self index v =
     (case get_slicers SIGNATURE index of
        Inl e \<Rightarrow> (Some e, self)
      | Inr slc \<Rightarrow>
          (case buffer_setslice (bytearray self) slc v of
             (e, buf') \<Rightarrow> (e, self\<lparr>bytearray := buf'\<rparr>)))"

definition field_read :: "int list \<Rightarrow> StructNoPointers \<Rightarrow> int \<Rightarrow> py_error + byte list" where
  "field_read SIGNATURE self index =
     (case get_slicers SIGNATURE index of
        Inl e \<Rightarrow> Inl e
      | Inr slc \<Rightarrow> Inr (buffer_getslice (bytearray self) slc))"

subsection \<open>ucred\<close>

definition ucred_SIGNATURE :: "int list" where
  "ucred_SIGNATURE = [SIZEOF_U32, SIZEOF_U32, SIZEOF_U32]"

definition ucred_SIZEOF :: int where
  "ucred_SIZEOF = sum_list ucred_SIGNATURE"

text \<open>The property setters: \<open>value or 0\<close> goes through \<open>c_int32\<close> into the field's slice.\<close>

definition ucred_set_pid ::
  "byteorder \<Rightarrow> StructNoPointers \<Rightarrow> int option \<Rightarrow> py_error option \<times> StructNoPointers" where
  "ucred_set_pid bo self val = field_write ucred_SIGNATURE self 0 (c_int32_bytes bo (py_or val 0))"

definition ucred_set_uid ::
  "byteorder \<Rightarrow> StructNoPointers \<Rightarrow> int option \<Rightarrow> py_error option \<times> StructNoPointers" where
  "ucred_set_uid bo self val = field_write ucred_SIGNATURE self 1 (c_int32_bytes bo (py_or val 0))"

definition ucred_set_gid ::
  "byteorder \<Rightarrow> StructNoPointers \<Rightarrow> int option \<Rightarrow> py_error option \<times> StructNoPointers" where
  "ucred_set_gid bo self val = field_write ucred_SIGNATURE self 2 (c_int32_bytes bo (py_or val 0))"

text \<open>The property getters read the field's slice through \<open>c_uint32\<close>.\<close>

definition ucred_pid :: "byteorder \<Rightarrow> StructNoPointers \<Rightarrow> py_error + int" where
  "ucred_pid bo self =
     (case field_read ucred_SIGNATURE self 0 of
        Inl e \<Rightarrow> Inl e | Inr bs \<Rightarrow> c_uint32_from_buffer bo bs)"

definition ucred_uid :: "byteorder \<Rightarrow> StructNoPointers \<Rightarrow> py_error + int" where
  "ucred_uid bo self =
     (case field_read ucred_SIGNATURE self 1 of
        Inl e \<Rightarrow> Inl e | Inr bs \<Rightarrow> c_uint32_from_buffer bo bs)"

definition ucred_gid :: "byteorder \<Rightarrow> StructNoPointers \<Rightarrow> py_error + int" where
  "ucred_gid bo self =
     (case field_read ucred_SIGNATURE self 2 of
        Inl e \<Rightarrow> Inl e | Inr bs \<Rightarrow> c_uint32_from_buffer bo bs)"

text \<open>
  \<open>__init__(self, pid=0, uid=0, gid=0)\<close>: a buffer of \<open>SIZEOF\<close> zero bytes, then the three
  setters in turn; an exception of a setter leaves the constructor.
\<close>

definition ucred_init ::
  "byteorder \<Rightarrow> int option \<Rightarrow> int option \<Rightarrow> int option \<Rightarrow> py_error + StructNoPointers" where
  "ucred_init bo pid uid gid =
     (let self = \<lparr>bytearray = PlainBytearray (replicate (nat ucred_SIZEOF) 0)\<rparr>
      in case ucred_set_pid bo self pid of
           (Some e, _) \<Rightarrow> Inl e
         | (None, self1) \<Rightarrow>
             (case ucred_set_uid bo self1 uid of
                (Some e, _) \<Rightarrow> Inl e
              | (None, self2) \<Rightarrow>
                  (case ucred_set_gid bo self2 gid of
                     (Some e, _) \<Rightarrow> Inl e
                   | (None, self3) \<Rightarrow> Inr self3)))"

subsection \<open>StructWithPointers\<close>

text \<open>
  A slot holds a bytes-like object: a \<open>bytearray\<close> (what \<open>__init__\<close> and \<open>new_pointer\<close>
  create), or an immutable \<open>bytes\<close> object. Only the second can be hashed. The keys of the
  dict \<open>pointers\<close> are hashable, so they are the contents of \<open>bytes\<close> objects; a payload is
  the sequence of bytes \<open>extend\<close> appends.
\<close>

datatype segment = BytearrayObj "byte list" | BytesObj "byte list"

fun content :: "segment \<Rightarrow> byte list" where
  "content (BytearrayObj bs) = bs"
| "content (BytesObj bs) = bs"

record StructWithPointers =
  bytearrays :: "segment list"
  pointers :: "byte list \<rightharpoonup> byte list"

definition StructWithPointers_init :: "int \<Rightarrow> StructWithPointers" where
  "StructWithPointers_init var_count =
     \<lparr>bytearrays = replicate (nat var_count) (BytearrayObj []), pointers = Map.empty\<rparr>"

text \<open>
  \<open>key in d\<close> and \<open>key not in d\<close> on a dict hash the key first: a bytearray raises
  \<open>TypeError\<close>, whatever the dict holds.
\<close>

definition dict_contains :: "(byte list \<rightharpoonup> 'v) \<Rightarrow> segment \<Rightarrow> py_error + bool" where
  "dict_contains d key =
     (case key of
        BytearrayObj _ \<Rightarrow> Inl (TypeError Unhashable)
      | BytesObj k \<Rightarrow> Inr (d k \<noteq> None))"

text \<open>\<open>d[key]\<close> hashes the key as well, and raises \<open>KeyError\<close> when the key is missing.\<close>

definition dict_getitem :: "(byte list \<rightharpoonup> 'v) \<Rightarrow> segment \<Rightarrow> py_error + 'v" where
  "dict_getitem d key =
     (case key of
        BytearrayObj _ \<Rightarrow> Inl (TypeError Unhashable)
      | BytesObj k \<Rightarrow> (case d k of None \<Rightarrow> Inl KeyError | Some v \<Rightarrow> Inr v))"

text \<open>The loop of the property \<open>bytearray\<close>, with \<open>resolved\<close> as accumulator.\<close>

fun resolve_loop ::
  "(byte list \<rightharpoonup> byte list) \<Rightarrow> segment list \<Rightarrow> byte list \<Rightarrow> py_error + byte list" where
  "resolve_loop ptrs [] resolved = Inr resolved"
| "resolve_loop ptrs (array # rest) resolved =
     (case dict_contains ptrs array of
        Inl e \<Rightarrow> Inl e
      | Inr True \<Rightarrow>
          (case dict_getitem ptrs array of
             Inl e \<Rightarrow> Inl e
           | Inr payload \<Rightarrow> resolve_loop ptrs rest (resolved @ payload))
      | Inr False \<Rightarrow> resolve_loop ptrs rest (resolved @ content array))"

definition StructWithPointers_bytearray :: "StructWithPointers \<Rightarrow> py_error + byte list" where
  "StructWithPointers_bytearray self = resolve_loop (pointers self) (bytearrays self) []"

text \<open>
  \<open>new_pointer\<close>. The platform's pointer size and byte order are arguments, and so are the
  integers \<open>random.randint\<close> returns, one for each turn of the loop: when they run out the
  loop is still running, and the result is \<open>None\<close>. The candidate is a slice of a
  bytearray, hence a bytearray.
\<close>

fun new_pointer ::
  "nat \<Rightarrow> byteorder \<Rightarrow> StructWithPointers \<Rightarrow> int list \<Rightarrow> (py_error + segment) option" where
  "new_pointer SIZEOF_POINTER bo self [] = None"
| "new_pointer SIZEOF_POINTER bo self (candidate_int # draws) =
     (let candidate_ba =
            BytearrayObj (getslice (c_uint64_bytes bo candidate_int) 0 (int SIZEOF_POINTER))
      in case dict_contains (pointers self) candidate_ba of
           Inl e \<Rightarrow> Some (Inl e)
         | Inr True \<Rightarrow> new_pointer SIZEOF_POINTER bo self draws
         | Inr False \<Rightarrow> Some (Inr candidate_ba))"

text \<open>
  \<open>__bool__\<close>: \<open>not not (c for a in self.bytearrays if a for c in a if c)\<close>. The operand of
  \<open>not\<close> is the generator object itself. A generator has neither \<open>__bool__\<close> nor \<open>__len__\<close>,
  so its truth value is \<open>True\<close> whatever it would yield.
\<close>

datatype 'a generator = Generator "'a list"

fun generator_truth :: "'a generator \<Rightarrow> bool" where
  "generator_truth (Generator yields) = True"

definition StructWithPointers_bool :: "StructWithPointers \<Rightarrow> bool" where
  "StructWithPointers_bool self =
     (\<not> \<not> generator_truth
        (Generator (concat (map (\<lambda>a. filter (\<lambda>c. c \<noteq> 0) (content a))
                                (filter (\<lambda>a. content a \<noteq> []) (bytearrays self))))))"

section \<open>Helper lemmas\<close>

lemma bit_mask_or_ID: "bit (m OR FAMILY_ATTR_ID) k \<longleftrightarrow> bit m k \<or> k = 0"
  by (simp add: FAMILY_ATTR_ID_def bit_or_iff bit_1_iff)

lemma bit_mask_or_NAME: "bit (m OR FAMILY_ATTR_NAME) k \<longleftrightarrow> bit m k \<or> k = 1"
  by (simp add: FAMILY_ATTR_NAME_def bit_or_iff bit_2_iff)

lemma mask_and_ID: "(m AND FAMILY_ATTR_ID \<noteq> 0) \<longleftrightarrow> bit m 0"
  by (simp add: FAMILY_ATTR_ID_def and_one_eq bit_0 mod_2_eq_odd)


lemma adjust_index_inrange: "0 \<le> i \<Longrightarrow> i \<le> n \<Longrightarrow> adjust_index n i = i"
  by (simp add: adjust_index_def)

lemma getslice_inrange:
  "0 \<le> a \<Longrightarrow> a \<le> b \<Longrightarrow> b \<le> int (length xs) \<Longrightarrow>
   getslice xs a b = take (nat (b - a)) (drop (nat a) xs)"
  by (simp add: getslice_def py_len_def adjust_index_inrange)

lemma length_getslice_inrange:
  "0 \<le> a \<Longrightarrow> a \<le> b \<Longrightarrow> b \<le> int (length xs) \<Longrightarrow> length (getslice xs a b) = nat (b - a)"
  by (simp add: getslice_inrange)

lemma setslice_inrange:
  "0 \<le> a \<Longrightarrow> a \<le> b \<Longrightarrow> b \<le> int (length xs) \<Longrightarrow>
   setslice xs a b v = take (nat a) xs @ v @ drop (nat b) xs"
  by (simp add: setslice_def py_len_def adjust_index_inrange)

lemma len_ptr_inrange:
  "0 \<le> a \<Longrightarrow> a \<le> b \<Longrightarrow> b \<le> int (length p) \<Longrightarrow>
   len_ptr \<lparr>pointee = p, slice_start = a, slice_stop = b\<rparr> = b - a"
  by (simp add: len_ptr_def py_len_def length_getslice_inrange)

lemma mask_eq_ID: "(ce_mask family AND FAMILY_ATTR_ID = FAMILY_ATTR_ID) \<longleftrightarrow> bit (ce_mask family) 0"
  by (simp add: FAMILY_ATTR_ID_def and_one_eq bit_0 mod_2_eq_odd)

section \<open>Claims about the family object\<close>

text \<open>
  C1. \<open>genl_family_get_id\<close> returns the stored \<open>gf_id\<close> when the ID bit (0x01) is set in
  \<open>ce_mask\<close>, and the constant \<open>GENL_ID_GENERATE\<close> otherwise, whatever \<open>gf_id\<close> holds; on
  a freshly allocated object, whose mask is zero, it returns the constant.
\<close>

theorem genl_family_get_id_presence:
  "(ce_mask family AND FAMILY_ATTR_ID = FAMILY_ATTR_ID \<longrightarrow>
      genl_family_get_id GENL_ID_GENERATE family = gf_id family) \<and>
   (ce_mask family AND FAMILY_ATTR_ID \<noteq> FAMILY_ATTR_ID \<longrightarrow>
      genl_family_get_id GENL_ID_GENERATE family = GENL_ID_GENERATE) \<and>
   genl_family_get_id GENL_ID_GENERATE (genl_family_alloc stored_id stored_name) = GENL_ID_GENERATE"
  by (simp add: genl_family_get_id_def genl_family_alloc_def mask_and_ID mask_eq_ID)

theorem genl_family_get_id_presence_witness:
  "(3::int) AND FAMILY_ATTR_ID = FAMILY_ATTR_ID \<and>
   genl_family_get_id 0 \<lparr>ce_mask = 3, gf_id = 16, gf_name = ''nlctrl''\<rparr> = 16 \<and>
   (2::int) AND FAMILY_ATTR_ID \<noteq> FAMILY_ATTR_ID \<and>
   genl_family_get_id 0 \<lparr>ce_mask = 2, gf_id = 16, gf_name = ''nlctrl''\<rparr> = 0"
  using genl_family_get_id_presence [of "\<lparr>ce_mask = 3, gf_id = 16, gf_name = ''nlctrl''\<rparr>" 0]
        genl_family_get_id_presence [of "\<lparr>ce_mask = 2, gf_id = 16, gf_name = ''nlctrl''\<rparr>" 0]
  by (simp add: FAMILY_ATTR_ID_def)

text \<open>
  C2. After \<open>genl_family_set_id(family, v)\<close> the stored \<open>gf_id\<close> is \<open>v\<close>, the ID bit is set,
  every other bit of \<open>ce_mask\<close> is as before, and \<open>gf_name\<close> and every further attribute are
  unchanged; \<open>genl_family_get_id\<close> then returns \<open>v\<close>. The same holds of
  \<open>genl_family_set_name\<close> with \<open>gf_name\<close> and the NAME bit (bit 1). Neither setter has a
  failing path: both are total functions with no exception among their results.
\<close>

theorem genl_family_setters_frame:
  "gf_id (genl_family_set_id family v) = v \<and>
   ce_mask (genl_family_set_id family v) AND FAMILY_ATTR_ID = FAMILY_ATTR_ID \<and>
   (\<forall>k. k \<noteq> 0 \<longrightarrow> bit (ce_mask (genl_family_set_id family v)) k = bit (ce_mask family) k) \<and>
   gf_name (genl_family_set_id family v) = gf_name family \<and>
   genl_family.more (genl_family_set_id family v) = genl_family.more family \<and>
   genl_family_get_id GENL_ID_GENERATE (genl_family_set_id family v) = v \<and>
   gf_name (genl_family_set_name family n) = n \<and>
   ce_mask (genl_family_set_name family n) AND FAMILY_ATTR_NAME = FAMILY_ATTR_NAME \<and>
   (\<forall>k. k \<noteq> 1 \<longrightarrow> bit (ce_mask (genl_family_set_name family n)) k = bit (ce_mask family) k) \<and>
   gf_id (genl_family_set_name family n) = gf_id family \<and>
   genl_family.more (genl_family_set_name family n) = genl_family.more family"
  apply (simp add: genl_family_set_id_def genl_family_set_name_def genl_family_get_id_def bit_mask_or_ID bit_mask_or_NAME mask_and_ID)
  apply (simp add: FAMILY_ATTR_ID_def FAMILY_ATTR_NAME_def bit_eq_iff bit_and_iff bit_or_iff bit_1_iff bit_2_iff)
  apply auto
  done


theorem genl_family_setters_frame_witness:
  "(5::nat) \<noteq> 0 \<and>
   bit (ce_mask (genl_family_set_id \<lparr>ce_mask = 0x22, gf_id = 0, gf_name = ''old''\<rparr> 16)) 5
     = bit (0x22::int) 5 \<and>
   (5::nat) \<noteq> 1 \<and>
   bit (ce_mask (genl_family_set_name \<lparr>ce_mask = 0x22, gf_id = 0, gf_name = ''old''\<rparr> ''nlctrl'')) 5
     = bit (0x22::int) 5"
  using genl_family_setters_frame
    [where family = "\<lparr>ce_mask = 0x22, gf_id = 0, gf_name = ''old''\<rparr>" and v = 16 and n = "''nlctrl''"]
  by simp

text \<open>
  C3. \<open>genl_family_add_grp\<close> is claimed to append a group, set a presence bit and return 0.
  For every family, id and name the function raises \<open>NotImplementedError\<close> instead: it
  returns nothing and leaves the family object as it was.
\<close>

theorem genl_family_add_grp_raises:
  "genl_family_add_grp family id' name = (Inl NotImplementedError, family) \<and>
   fst (genl_family_add_grp family id' name) \<noteq> Inr 0"
  by (simp add: genl_family_add_grp_def)

section \<open>Claims about bytearray_ptr\<close>

lemma py_or_start: "key_start = None \<or> key_start = Some 0 \<Longrightarrow> py_or key_start 0 = 0"
  by (auto simp: py_or_def)

lemma splice_nth:
  "m \<le> n \<Longrightarrow> n \<le> length p \<Longrightarrow> length v = n - m \<Longrightarrow> i < length p \<Longrightarrow>
   (take m p @ v @ drop n p) ! i = (if m \<le> i \<and> i < n then v ! (i - m) else p ! i)"
  by (auto simp: nth_append min_def)

text \<open>
  C5 (amended). For a view with \<open>0 \<le> start < stop \<le> len(pointee)\<close> (a view that is not
  empty) and a replacement of \<open>stop - start\<close> bytes, writing the replacement over the
  whole view (\<open>view[:]\<close>, \<open>view[0:]\<close>, \<open>view[:len]\<close> or \<open>view[0:len]\<close>, with any step, which
  is ignored) raises nothing; afterwards the pointee has its old length, its bytes in
  \<open>[start, stop)\<close> are the replacement, and every other byte is unchanged.
\<close>

theorem setitem_full_range:
  assumes "0 \<le> a" and "a < b" and "b \<le> int (length p)" and "int (length v) = b - a"
    and "key_start = None \<or> key_start = Some 0"
    and "key_stop = None \<or> key_stop = Some (b - a)"
  shows "setitem \<lparr>pointee = p, slice_start = a, slice_stop = b\<rparr>
             (Slice key_start key_stop step) (BytesValue v)
           = (None, \<lparr>pointee = take (nat a) p @ v @ drop (nat b) p,
                     slice_start = a, slice_stop = b\<rparr>) \<and>
         length (take (nat a) p @ v @ drop (nat b) p) = length p \<and>
         (\<forall>i < length p. (take (nat a) p @ v @ drop (nat b) p) ! i
              = (if a \<le> int i \<and> int i < b then v ! (i - nat a) else p ! i))"
proof -
  let ?self = "\<lparr>pointee = p, slice_start = a, slice_stop = b\<rparr>"
  let ?p' = "take (nat a) p @ v @ drop (nat b) p"
  have len: "len_ptr ?self = b - a"
    using assms by (simp add: len_ptr_inrange)
  have vs: "view_start ?self key_start = 0"
    using assms(5) by (simp add: view_start_def py_or_start)
  have stop: "py_or key_stop (if key_stop = Some 0 then 0 else b - a) = b - a"
    using assms(2,6) by (auto simp: py_or_def)
  have tr: "target_range ?self key_start key_stop = (a, b)"
    using assms(2,6) by (auto simp: target_range_def vs len py_or_def Let_def)
  have gl: "length (getslice p a b) = length v"
    using assms by (simp add: length_getslice_inrange)
  have ss: "setslice p a b v = ?p'"
    using assms by (simp add: setslice_inrange)
  have lp: "length ?p' = length p"
    using assms by simp
  have cb: "catch_bugs ?self ?p' = (None, \<lparr>pointee = ?p', slice_start = a, slice_stop = b\<rparr>)"
    unfolding catch_bugs_def by (subst lp) simp
  have "setitem ?self (Slice key_start key_stop step) (BytesValue v)
          = (None, \<lparr>pointee = ?p', slice_start = a, slice_stop = b\<rparr>)"
    using assms(2) by (simp add: setitem_def key_bounds_def key_is_int_def vs len tr gl ss cb)
  moreover have "\<forall>i < length p. ?p' ! i = (if a \<le> int i \<and> int i < b then v ! (i - nat a) else p ! i)"
  proof (intro allI impI)
    fix i assume i: "i < length p"
    have "?p' ! i = (if nat a \<le> i \<and> i < nat b then v ! (i - nat a) else p ! i)"
      using assms i by (intro splice_nth) linarith+
    moreover have "(nat a \<le> i \<and> i < nat b) \<longleftrightarrow> (a \<le> int i \<and> int i < b)"
      using assms by linarith
    ultimately show "?p' ! i = (if a \<le> int i \<and> int i < b then v ! (i - nat a) else p ! i)"
      by simp
  qed
  ultimately show ?thesis using lp by blast
qed

lemma setitem_slice_mismatch:
  assumes "target_range self key_start key_stop = (start, stop)"
    and "length v \<noteq> length (getslice (pointee self) start stop)"
  shows "setitem self (Slice key_start key_stop step) (BytesValue v)
           = (Some (if view_start self key_start \<ge> len_ptr self then IndexError
                    else TypeError LengthChange), self)"
  using assms by (auto simp: setitem_def key_bounds_def key_is_int_def)



lemma bytearray_ptr_init_example:
  "bytearray_ptr_init (replicate 10 0) (Some 2) (Some 5)
     = \<lparr>pointee = replicate 10 0, slice_start = 2, slice_stop = 5\<rparr>"
  by (simp add: bytearray_ptr_init_def py_or_def py_len_def)

text \<open>
  The example of the spec: a view with start 2 and stop 5 over ten bytes, written with
  three bytes over its whole range.
\<close>

theorem setitem_full_range_witness:
  "(0::int) \<le> 2 \<and> (2::int) < 5 \<and> 5 \<le> int (length (replicate 10 (0::byte))) \<and>
   int (length [1, 2, 3 :: byte]) = 5 - 2 \<and>
   setitem (bytearray_ptr_init (replicate 10 0) (Some 2) (Some 5))
       (Slice None None None) (BytesValue [1, 2, 3])
     = (None, \<lparr>pointee = [0, 0, 1, 2, 3, 0, 0, 0, 0, 0], slice_start = 2, slice_stop = 5\<rparr>)"
proof -
  let ?p = "replicate 10 (0::byte)"
  have h: "(0::int) \<le> 2" "(2::int) < 5" "5 \<le> int (length ?p)"
    "int (length [1, 2, 3 :: byte]) = 5 - 2"
    by simp_all
  have p': "take (nat 2) ?p @ [1, 2, 3] @ drop (nat 5) ?p = [0, 0, 1, 2, 3, 0, 0, 0, 0, 0]"
    by (simp add: eval_nat_numeral)
  have "setitem \<lparr>pointee = ?p, slice_start = 2, slice_stop = 5\<rparr>
          (Slice None None None) (BytesValue [1, 2, 3])
        = (None, \<lparr>pointee = take (nat 2) ?p @ [1, 2, 3] @ drop (nat 5) ?p,
                  slice_start = 2, slice_stop = 5\<rparr>)"
    using setitem_full_range [OF h, of None None None] by blast
  then show ?thesis
    using h by (simp only: bytearray_ptr_init_example p')
qed

text \<open>
  C5 as stated fails on an empty view: with start = stop = 2 the replacement of length
  \<open>stop - start = 0\<close> is rejected, because \<open>start >= len(self)\<close> holds with both sides zero.
\<close>

theorem setitem_empty_view_counterexample:
  "int (length ([] :: byte list)) = 2 - 2 \<and>
   bytearray_ptr_init (replicate 10 0) (Some 2) (Some 2)
     = \<lparr>pointee = replicate 10 0, slice_start = 2, slice_stop = 2\<rparr> \<and>
   setitem \<lparr>pointee = replicate 10 0, slice_start = 2, slice_stop = 2\<rparr>
       (Slice None None None) (BytesValue [])
     = (Some IndexError, \<lparr>pointee = replicate 10 0, slice_start = 2, slice_stop = 2\<rparr>)"
  by (simp add: bytearray_ptr_init_def py_or_def py_len_def setitem_def key_bounds_def
      view_start_def len_ptr_def getslice_def adjust_index_def)



section \<open>Claims about StructWithPointers\<close>

lemma resolve_loop_bytes_slots:
  "resolve_loop ptrs (map BytesObj ks) resolved
     = Inr (resolved @ concat (map (\<lambda>k. case ptrs k of Some payload \<Rightarrow> payload | None \<Rightarrow> k) ks))"
  by (induction ks arbitrary: resolved)
    (auto simp: dict_contains_def dict_getitem_def split: option.splits)

text \<open>
  C6. The property \<open>bytearray\<close> is claimed to return, for every struct, the concatenation of
  the slots with registered tokens replaced by their payloads. With \<open>bytes\<close> objects in
  every slot it does, as the lemma above shows. With a bytearray in its first slot, which
  is what \<open>__init__\<close> puts in every slot, the membership test raises \<open>TypeError\<close>: so does
  a struct whose one slot holds a registered token, and so does a fresh struct of one slot.
\<close>

theorem bytearray_property_unhashable:
  "StructWithPointers_bytearray \<lparr>bytearrays = BytearrayObj token # rest, pointers = ptrs\<rparr>
     = Inl (TypeError Unhashable) \<and>
   StructWithPointers_bytearray
       \<lparr>bytearrays = [BytearrayObj [1, 0, 0, 0, 0, 0, 0, 0]],
        pointers = Map.empty([1, 0, 0, 0, 0, 0, 0, 0] \<mapsto> [170, 187])\<rparr>
     = Inl (TypeError Unhashable) \<and>
   StructWithPointers_bytearray (StructWithPointers_init 1) = Inl (TypeError Unhashable)"
  by (simp add: StructWithPointers_bytearray_def StructWithPointers_init_def dict_contains_def)

text \<open>
  C7. \<open>new_pointer\<close> is claimed to return a token of pointer width that is not a key of the
  side table. Whatever the table holds and whatever \<open>random.randint\<close> draws, the first turn
  of the loop raises \<open>TypeError\<close>: the candidate is a bytearray, and the membership test
  hashes it.
\<close>

theorem new_pointer_unhashable:
  "new_pointer SIZEOF_POINTER bo self (candidate_int # draws) = Some (Inl (TypeError Unhashable))"
  by (simp add: dict_contains_def)

text \<open>
  C10. \<open>__bool__\<close> of a \<open>StructWithPointers\<close> is \<open>True\<close> for every instance, also when every
  slot is empty (a fresh struct of three slots) or holds zero bytes only.
\<close>

theorem StructWithPointers_bool_True:
  "StructWithPointers_bool self \<and>
   StructWithPointers_bool (StructWithPointers_init 3) \<and>
   StructWithPointers_bool \<lparr>bytearrays = [BytearrayObj [0, 0], BytearrayObj []], pointers = Map.empty\<rparr>"
  by (simp add: StructWithPointers_bool_def)


section \<open>Claims about StructNoPointers and ucred\<close>

lemma sum_list_take_le:
  "\<forall>w \<in> set xs. (0::int) \<le> w \<Longrightarrow> sum_list (take n xs) \<le> sum_list xs"
proof -
  assume nn: "\<forall>w \<in> set xs. (0::int) \<le> w"
  have "\<forall>w \<in> set (drop n xs). 0 \<le> w"
    using nn by (meson in_set_dropD)
  then have "0 \<le> sum_list (drop n xs)"
    by (simp add: sum_list_nonneg)
  moreover have "sum_list xs = sum_list (take n xs) + sum_list (drop n xs)"
    by (metis append_take_drop_id sum_list_append)
  ultimately show ?thesis by linarith
qed

lemma sum_list_take_Suc:
  "n < length xs \<Longrightarrow> sum_list (take (Suc n) xs) = sum_list (take n xs) + (xs ! n :: int)"
  by (simp add: take_Suc_conv_app_nth)

lemma get_slicers_inrange:
  assumes "0 \<le> i" and "i < int (length SIGNATURE)"
  shows "get_slicers SIGNATURE i
           = Inr (sum_list (take (nat i) SIGNATURE),
                  sum_list (take (nat i) SIGNATURE) + SIGNATURE ! nat i)"
proof (cases "i = 0")
  case True
  then show ?thesis using assms by (simp add: get_slicers_def getindex_def py_len_def)
next
  case False
  have "getslice SIGNATURE 0 i = take (nat i) SIGNATURE"
    using assms by (simp add: getslice_inrange)
  then show ?thesis
    using False assms by (simp add: get_slicers_def getindex_def py_len_def Let_def)
qed

text \<open>
  C9 (amended). \<open>StructNoPointers\<close> has no length check of its own. When the buffer of the
  struct is a \<open>bytearray_ptr\<close> view whose length is the sum of the signature (of widths that
  are not negative), writing field \<open>i\<close> with a byte slice that is not \<open>SIGNATURE[i]\<close> bytes
  long raises (the \<open>TypeError\<close> "length cannot be changed", or \<open>IndexError\<close> when the field
  starts at the end of the view, as a field of width zero can) and leaves the struct, the
  view and the pointee unchanged.
\<close>

theorem field_write_view_mismatch_rejected:
  assumes "0 \<le> a" and "a \<le> b" and "b \<le> int (length p)"
    and "b - a = sum_list SIGNATURE"
    and "\<forall>w \<in> set SIGNATURE. 0 \<le> w"
    and "0 \<le> i" and "i < int (length SIGNATURE)"
    and "int (length v) \<noteq> SIGNATURE ! nat i"
  shows "field_write SIGNATURE
             \<lparr>bytearray = BytearrayPtr \<lparr>pointee = p, slice_start = a, slice_stop = b\<rparr>\<rparr> i v
           = (Some (if sum_list (take (nat i) SIGNATURE) \<ge> sum_list SIGNATURE then IndexError
                    else TypeError LengthChange),
              \<lparr>bytearray = BytearrayPtr \<lparr>pointee = p, slice_start = a, slice_stop = b\<rparr>\<rparr>)"
proof -
  let ?view = "\<lparr>pointee = p, slice_start = a, slice_stop = b\<rparr>"
  let ?s = "sum_list (take (nat i) SIGNATURE)"
  let ?w = "SIGNATURE ! nat i"
  have ni: "nat i < length SIGNATURE" using assms by linarith
  have s0: "0 \<le> ?s"
    using assms(5) by (intro sum_list_nonneg) (meson in_set_takeD)
  have w0: "0 \<le> ?w" using assms(5) ni by simp
  have "?s + ?w = sum_list (take (Suc (nat i)) SIGNATURE)"
    using ni by (simp add: sum_list_take_Suc)
  also have "\<dots> \<le> sum_list SIGNATURE"
    using assms(5) by (rule sum_list_take_le)
  finally have e: "?s + ?w \<le> b - a" using assms(4) by simp
  have len: "len_ptr ?view = b - a"
    using assms by (simp add: len_ptr_inrange)
  have vs: "view_start ?view (Some ?s) = ?s"
    using s0 by (simp add: view_start_def py_or_def)
  have tr: "target_range ?view (Some ?s) (Some (?s + ?w)) = (?s + a, ?s + ?w + a)"
    using s0 w0 e by (auto simp: target_range_def vs len py_or_def Let_def)
  have "length (getslice (pointee ?view) (?s + a) (?s + ?w + a)) = nat ?w"
    using assms(1,3) s0 w0 e by (simp add: length_getslice_inrange)
  then have ne: "length v \<noteq> length (getslice (pointee ?view) (?s + a) (?s + ?w + a))"
    using assms(8) w0 by linarith
  have "setitem ?view (Slice (Some ?s) (Some (?s + ?w)) None) (BytesValue v)
          = (Some (if ?s \<ge> b - a then IndexError else TypeError LengthChange), ?view)"
    using setitem_slice_mismatch [OF tr ne, of None] by (simp add: vs len)
  then show ?thesis
    using assms(4,6,7)
    by (simp add: field_write_def get_slicers_inrange buffer_setslice_def)
qed

text \<open>
  C9 as stated fails on a struct over a plain bytearray, such as \<open>ucred\<close> builds: two bytes
  written to field 0 of the signature \<open>(4, 4, 4)\<close> raise nothing, and the buffer of twelve
  bytes is ten bytes long afterwards.
\<close>

theorem field_write_plain_bytearray_counterexample:
  "int (length [1, 2 :: byte]) \<noteq> ucred_SIGNATURE ! 0 \<and>
   field_write ucred_SIGNATURE \<lparr>bytearray = PlainBytearray (replicate 12 0)\<rparr> 0 [1, 2]
     = (None, \<lparr>bytearray = PlainBytearray ([1, 2] @ replicate 8 0)\<rparr>)"
  by (simp add: field_write_def get_slicers_def getindex_def py_len_def ucred_SIGNATURE_def
      SIZEOF_U32_def buffer_setslice_def setslice_def adjust_index_def eval_nat_numeral)


text \<open>Two bytes written to field 1 of the signature \<open>(4, 4, 4)\<close> through a view of twelve bytes.\<close>

theorem field_write_view_mismatch_rejected_witness:
  "(0::int) \<le> 0 \<and> (0::int) \<le> 12 \<and> 12 \<le> int (length (replicate 12 (0::byte))) \<and>
   (12::int) - 0 = sum_list [4, 4, 4] \<and> (0::int) \<le> 4 \<and>
   (0::int) \<le> 1 \<and> 1 < int (length [4, 4, 4 :: int]) \<and>
   int (length [1, 2 :: byte]) \<noteq> [4, 4, 4] ! nat 1 \<and>
   field_write [4, 4, 4]
       \<lparr>bytearray = BytearrayPtr \<lparr>pointee = replicate 12 0, slice_start = 0, slice_stop = 12\<rparr>\<rparr>
       1 [1, 2]
     = (Some (TypeError LengthChange),
        \<lparr>bytearray = BytearrayPtr \<lparr>pointee = replicate 12 0, slice_start = 0, slice_stop = 12\<rparr>\<rparr>)"
proof -
  have h: "(0::int) \<le> 0" "(0::int) \<le> 12" "12 \<le> int (length (replicate 12 (0::byte)))"
    "(12::int) - 0 = sum_list [4, 4, 4]" "\<forall>w \<in> set [4, 4, 4 :: int]. 0 \<le> w"
    "(0::int) \<le> 1" "1 < int (length [4, 4, 4 :: int])"
    "int (length [1, 2 :: byte]) \<noteq> [4, 4, 4] ! nat 1"
    by simp_all
  have "\<not> sum_list (take (nat 1) [4, 4, 4 :: int]) \<ge> sum_list [4, 4, 4]"
    by simp
  then show ?thesis
    using field_write_view_mismatch_rejected [OF h] h by simp
qed

lemma length_le_bytes: "length (le_bytes n v) = n"
  by (induction n arbitrary: v) simp_all

lemma le_value_le_bytes: "le_value (le_bytes n v) = v mod 256 ^ n"
proof (induction n arbitrary: v)
  case 0
  show ?case by simp
next
  case (Suc n)
  have "uint (word_of_int v :: byte) = v mod 256"
    by (simp add: uint_word_of_int)
  moreover have "v mod (256 * 256 ^ n) = 256 * (v div 256 mod 256 ^ n) + v mod 256"
    by (rule zmod_zmult2_eq) simp
  ultimately show ?case by (simp add: Suc)
qed

lemma length_native_bytes: "length (native_bytes bo n v) = n"
  by (cases bo) (simp_all add: native_bytes_def length_le_bytes)

lemma native_value_native_bytes:
  "0 \<le> v \<Longrightarrow> v < 2 ^ 32 \<Longrightarrow> native_value bo (native_bytes bo 4 v) = v"
  by (cases bo) (simp_all add: native_value_def native_bytes_def le_value_le_bytes)

lemma get_slicers_ucred:
  "get_slicers ucred_SIGNATURE 0 = Inr (0, 4)"
  "get_slicers ucred_SIGNATURE 1 = Inr (4, 8)"
  "get_slicers ucred_SIGNATURE 2 = Inr (8, 12)"
  by (simp_all add: get_slicers_def getindex_def getslice_def adjust_index_def py_len_def
      ucred_SIGNATURE_def SIZEOF_U32_def)

lemma ucred_writes:
  assumes "length ba = 12" and "length e1 = 4" and "length e2 = 4" and "length e3 = 4"
  shows "setslice ba 0 4 e1 = e1 @ drop 4 ba"
    and "setslice (e1 @ drop 4 ba) 4 8 e2 = e1 @ e2 @ drop 8 ba"
    and "setslice (e1 @ e2 @ drop 8 ba) 8 12 e3 = e1 @ e2 @ e3"
  using assms by (simp_all add: setslice_def adjust_index_def py_len_def)

lemma ucred_reads:
  assumes "length e1 = 4" and "length e2 = 4" and "length e3 = 4"
  shows "getslice (e1 @ e2 @ e3) 0 4 = e1"
    and "getslice (e1 @ e2 @ e3) 4 8 = e2"
    and "getslice (e1 @ e2 @ e3) 8 12 = e3"
  using assms by (simp_all add: getslice_def adjust_index_def py_len_def)


lemma py_or_Some: "py_or (Some v) 0 = v"
  by (simp add: py_or_def)

lemma native_bytes_zero: "native_bytes bo 4 0 = [0, 0, 0, 0]"
  by (cases bo) (simp_all add: native_bytes_def eval_nat_numeral)

lemma ucred_set_plain:
  "ucred_set_pid bo \<lparr>bytearray = PlainBytearray ba\<rparr> (Some v)
     = (None, \<lparr>bytearray = PlainBytearray (setslice ba 0 4 (native_bytes bo 4 v))\<rparr>)"
  "ucred_set_uid bo \<lparr>bytearray = PlainBytearray ba\<rparr> (Some v)
     = (None, \<lparr>bytearray = PlainBytearray (setslice ba 4 8 (native_bytes bo 4 v))\<rparr>)"
  "ucred_set_gid bo \<lparr>bytearray = PlainBytearray ba\<rparr> (Some v)
     = (None, \<lparr>bytearray = PlainBytearray (setslice ba 8 12 (native_bytes bo 4 v))\<rparr>)"
  by (simp_all add: ucred_set_pid_def ucred_set_uid_def ucred_set_gid_def field_write_def
      get_slicers_ucred buffer_setslice_def c_int32_bytes_def py_or_Some)

lemma ucred_get_plain:
  "ucred_pid bo \<lparr>bytearray = PlainBytearray ba\<rparr> = c_uint32_from_buffer bo (getslice ba 0 4)"
  "ucred_uid bo \<lparr>bytearray = PlainBytearray ba\<rparr> = c_uint32_from_buffer bo (getslice ba 4 8)"
  "ucred_gid bo \<lparr>bytearray = PlainBytearray ba\<rparr> = c_uint32_from_buffer bo (getslice ba 8 12)"
  by (simp_all add: ucred_pid_def ucred_uid_def ucred_gid_def field_read_def
      get_slicers_ucred buffer_getslice_def)

lemma c_uint32_from_native_bytes:
  "0 \<le> v \<Longrightarrow> v < 2 ^ 32 \<Longrightarrow> c_uint32_from_buffer bo (native_bytes bo 4 v) = Inr v"
  by (simp add: c_uint32_from_buffer_def length_native_bytes native_value_native_bytes)

text \<open>
  C8. On a \<open>ucred\<close> (a struct over a plain bytearray of twelve bytes), for every byte order
  and all \<open>pid\<close>, \<open>uid\<close>, \<open>gid\<close> in the range of an unsigned 32-bit integer: the three setters
  raise nothing; afterwards the buffer is the four bytes of \<open>pid\<close>, of \<open>uid\<close> and of \<open>gid\<close>
  in this order (offsets 0, 4 and 8), each the platform's encoding of the unsigned value;
  the getters return \<open>pid\<close>, \<open>uid\<close> and \<open>gid\<close>; the constructor called with the three values
  builds the same buffer, and called with its defaults builds twelve zero bytes.
\<close>

theorem ucred_roundtrip:
  assumes "length ba = 12"
    and "0 \<le> pid" and "pid < 2 ^ 32"
    and "0 \<le> uid" and "uid < 2 ^ 32"
    and "0 \<le> gid" and "gid < 2 ^ 32"
  shows
    "ucred_set_pid bo \<lparr>bytearray = PlainBytearray ba\<rparr> (Some pid)
       = (None, \<lparr>bytearray = PlainBytearray (native_bytes bo 4 pid @ drop 4 ba)\<rparr>) \<and>
     ucred_set_uid bo \<lparr>bytearray = PlainBytearray (native_bytes bo 4 pid @ drop 4 ba)\<rparr> (Some uid)
       = (None, \<lparr>bytearray = PlainBytearray
                    (native_bytes bo 4 pid @ native_bytes bo 4 uid @ drop 8 ba)\<rparr>) \<and>
     ucred_set_gid bo \<lparr>bytearray = PlainBytearray
                    (native_bytes bo 4 pid @ native_bytes bo 4 uid @ drop 8 ba)\<rparr> (Some gid)
       = (None, \<lparr>bytearray = PlainBytearray
                    (native_bytes bo 4 pid @ native_bytes bo 4 uid @ native_bytes bo 4 gid)\<rparr>) \<and>
     ucred_pid bo \<lparr>bytearray = PlainBytearray
                    (native_bytes bo 4 pid @ native_bytes bo 4 uid @ native_bytes bo 4 gid)\<rparr>
       = Inr pid \<and>
     ucred_uid bo \<lparr>bytearray = PlainBytearray
                    (native_bytes bo 4 pid @ native_bytes bo 4 uid @ native_bytes bo 4 gid)\<rparr>
       = Inr uid \<and>
     ucred_gid bo \<lparr>bytearray = PlainBytearray
                    (native_bytes bo 4 pid @ native_bytes bo 4 uid @ native_bytes bo 4 gid)\<rparr>
       = Inr gid \<and>
     length (native_bytes bo 4 pid) = 4 \<and> native_value bo (native_bytes bo 4 pid) = pid \<and>
     length (native_bytes bo 4 uid) = 4 \<and> native_value bo (native_bytes bo 4 uid) = uid \<and>
     length (native_bytes bo 4 gid) = 4 \<and> native_value bo (native_bytes bo 4 gid) = gid \<and>
     ucred_init bo (Some pid) (Some uid) (Some gid)
       = Inr \<lparr>bytearray = PlainBytearray
                (native_bytes bo 4 pid @ native_bytes bo 4 uid @ native_bytes bo 4 gid)\<rparr> \<and>
     ucred_init bo (Some 0) (Some 0) (Some 0)
       = Inr \<lparr>bytearray = PlainBytearray (replicate 12 0)\<rparr>"
proof -
  let ?P = "native_bytes bo 4 pid" and ?U = "native_bytes bo 4 uid" and ?G = "native_bytes bo 4 gid"
  have l: "length ?P = 4" "length ?U = 4" "length ?G = 4"
    by (simp_all add: length_native_bytes)
  note w = ucred_writes [OF assms(1) l]
  note r = ucred_reads [OF l]
  have sets: "ucred_set_pid bo \<lparr>bytearray = PlainBytearray ba\<rparr> (Some pid)
       = (None, \<lparr>bytearray = PlainBytearray (?P @ drop 4 ba)\<rparr>)"
     "ucred_set_uid bo \<lparr>bytearray = PlainBytearray (?P @ drop 4 ba)\<rparr> (Some uid)
       = (None, \<lparr>bytearray = PlainBytearray (?P @ ?U @ drop 8 ba)\<rparr>)"
     "ucred_set_gid bo \<lparr>bytearray = PlainBytearray (?P @ ?U @ drop 8 ba)\<rparr> (Some gid)
       = (None, \<lparr>bytearray = PlainBytearray (?P @ ?U @ ?G)\<rparr>)"
    by (simp_all only: ucred_set_plain w)
  have gets: "ucred_pid bo \<lparr>bytearray = PlainBytearray (?P @ ?U @ ?G)\<rparr> = Inr pid"
    "ucred_uid bo \<lparr>bytearray = PlainBytearray (?P @ ?U @ ?G)\<rparr> = Inr uid"
    "ucred_gid bo \<lparr>bytearray = PlainBytearray (?P @ ?U @ ?G)\<rparr> = Inr gid"
    using assms by (simp_all only: ucred_get_plain r c_uint32_from_native_bytes)
  have vals: "native_value bo ?P = pid" "native_value bo ?U = uid" "native_value bo ?G = gid"
    using assms by (simp_all add: native_value_native_bytes)
  have z: "length (replicate (nat ucred_SIZEOF) (0::byte)) = 12"
    by (simp add: ucred_SIZEOF_def ucred_SIGNATURE_def SIZEOF_U32_def)
  have init: "ucred_init bo (Some x) (Some y) (Some z)
      = Inr \<lparr>bytearray = PlainBytearray
               (native_bytes bo 4 x @ native_bytes bo 4 y @ native_bytes bo 4 z)\<rparr>" for x y z
  proof -
    have l': "length (native_bytes bo 4 x) = 4" "length (native_bytes bo 4 y) = 4"
      "length (native_bytes bo 4 z) = 4"
      by (simp_all add: length_native_bytes)
    show ?thesis
      unfolding ucred_init_def Let_def
      by (simp only: ucred_set_plain ucred_writes [OF z l'] prod.case option.case)
  qed
  have "ucred_init bo (Some 0) (Some 0) (Some 0) = Inr \<lparr>bytearray = PlainBytearray (replicate 12 0)\<rparr>"
  proof -
    have "replicate 12 (0::byte) = [0, 0, 0, 0] @ [0, 0, 0, 0] @ [0, 0, 0, 0]"
      by (simp add: eval_nat_numeral)
    then show ?thesis by (simp only: init native_bytes_zero)
  qed
  then show ?thesis
    using sets gets vals l init by simp
qed


lemma le_bytes_4:
  "le_bytes 4 v = [word_of_int v, word_of_int (v div 256), word_of_int (v div 256 div 256),
                   word_of_int (v div 256 div 256 div 256)]"
  by (simp add: eval_nat_numeral)

text \<open>The example of the spec, on a little-endian platform: pid 100, uid 200, gid 300.\<close>

theorem ucred_roundtrip_witness:
  "length (replicate 12 (0::byte)) = 12 \<and>
   (0::int) \<le> 100 \<and> (100::int) < 2 ^ 32 \<and> (0::int) \<le> 200 \<and> (200::int) < 2 ^ 32 \<and>
   (0::int) \<le> 300 \<and> (300::int) < 2 ^ 32 \<and>
   ucred_init LittleEndian (Some 100) (Some 200) (Some 300)
     = Inr \<lparr>bytearray = PlainBytearray [100, 0, 0, 0, 200, 0, 0, 0, 44, 1, 0, 0]\<rparr> \<and>
   ucred_pid LittleEndian \<lparr>bytearray = PlainBytearray [100, 0, 0, 0, 200, 0, 0, 0, 44, 1, 0, 0]\<rparr>
     = Inr 100 \<and>
   ucred_uid LittleEndian \<lparr>bytearray = PlainBytearray [100, 0, 0, 0, 200, 0, 0, 0, 44, 1, 0, 0]\<rparr>
     = Inr 200 \<and>
   ucred_gid LittleEndian \<lparr>bytearray = PlainBytearray [100, 0, 0, 0, 200, 0, 0, 0, 44, 1, 0, 0]\<rparr>
     = Inr 300"
proof -
  have h: "length (replicate 12 (0::byte)) = 12"
    "(0::int) \<le> 100" "(100::int) < 2 ^ 32" "(0::int) \<le> 200" "(200::int) < 2 ^ 32"
    "(0::int) \<le> 300" "(300::int) < 2 ^ 32"
    by simp_all
  have enc: "native_bytes LittleEndian 4 100 @ native_bytes LittleEndian 4 200
               @ native_bytes LittleEndian 4 300
             = [100, 0, 0, 0, 200, 0, 0, 0, 44, 1, 0, 0]"
    by (simp add: native_bytes_def le_bytes_4)
  show ?thesis
    using ucred_roundtrip [OF h, of LittleEndian] h by (simp only: enc)
qed

end
